theory Spec2Isabelle
  imports Main "HOL-Library.AList" "HOL-Library.Stream" "HOL-Library.Option_ord"
begin

section \<open>Values, blobs and errors\<close>

text \<open>
  The program is Python 2 (\<^verbatim>\<open>src/elephant.py\<close>). A payload is whatever
  \<^verbatim>\<open>request.json\<close> or \<^verbatim>\<open>json.loads\<close> produces, so the values of the model
  are the JSON-compatible Python values. \<open>PNone\<close> is Python's \<^verbatim>\<open>None\<close> (JSON
  \<^verbatim>\<open>null\<close>), a \<^verbatim>\<open>dict\<close> is a map from keys to values. Floating point numbers are
  left out, and \<^verbatim>\<open>str\<close> and \<^verbatim>\<open>unicode\<close> are not told apart: a string is its
  list of characters.
\<close>

datatype pyval =
    PNone
  | PBool bool
  | PInt int
  | PStr string
  | PList "pyval list"
  | PDict "string \<Rightarrow> pyval option"

type_synonym pydict = "string \<rightharpoonup> pyval"

text \<open>
  The exceptions that the modelled code can raise: Python's own, boto's
  \<^verbatim>\<open>S3ResponseError\<close> and pyelasticsearch's three.
\<close>

datatype error =
    AttributeError
  | KeyError
  | TypeError
  | ValueError
  | S3ResponseError
  | ElasticHttpError
  | ElasticHttpNotFoundError
  | IndexAlreadyExistsError

text \<open>
  The content of an S3 key is text. The program writes it with
  \<^verbatim>\<open>json.dumps\<close> only and reads it with \<^verbatim>\<open>json.loads\<close> only, so a content
  is modelled by what \<^verbatim>\<open>json.loads\<close> makes of it: \<open>JsonText v\<close> is any JSON text
  that denotes the value \<open>v\<close>, \<open>RawText s\<close> is a text \<open>s\<close> that is not JSON.
\<close>

datatype blob = JsonText pyval | RawText string

definition json_dumps :: "pyval \<Rightarrow> blob" where
  "json_dumps v = JsonText v"

fun json_loads :: "blob \<Rightarrow> error + pyval" where
  "json_loads (JsonText v) = Inr v"
| "json_loads (RawText s) = Inl ValueError"

text \<open>\<^verbatim>\<open>v[k]\<close> for a string \<open>k\<close>, as in \<^verbatim>\<open>json.loads(...)['record']\<close>.\<close>

fun getitem :: "pyval \<Rightarrow> string \<Rightarrow> error + pyval" where
  "getitem (PDict m) k = (case m k of None \<Rightarrow> Inl KeyError | Some v \<Rightarrow> Inr v)"
| "getitem v k = Inl TypeError"

text \<open>\<^verbatim>\<open>d.pop(k, default)\<close>: the value and the dictionary without the key.\<close>

definition pop :: "pydict \<Rightarrow> string \<Rightarrow> pyval \<Rightarrow> pyval \<times> pydict" where
  "pop d k dflt = (case d k of None \<Rightarrow> (dflt, d) | Some v \<Rightarrow> (v, d(k := None)))"

text \<open>
  \<^verbatim>\<open>'{}'.format(v)\<close>. A string is itself and \<^verbatim>\<open>None\<close> is \<^verbatim>\<open>'None'\<close>; the text
  Python gives the other values (numbers, and containers in hash order) is the
  parameter \<open>rd\<close>.
\<close>

fun py_str :: "(pyval \<Rightarrow> string) \<Rightarrow> pyval \<Rightarrow> string" where
  "py_str rd (PStr s) = s"
| "py_str rd PNone = ''None''"
| "py_str rd v = rd v"

fun opt_val :: "string option \<Rightarrow> pyval" where
  "opt_val None = PNone"
| "opt_val (Some s) = PStr s"

text \<open>\<^verbatim>\<open>'{0}/{1}'.format(c, u)\<close>, the name of a record's key in the bucket.\<close>

definition key_name :: "(pyval \<Rightarrow> string) \<Rightarrow> pyval \<Rightarrow> pyval \<Rightarrow> string" where
  "key_name rd c u = py_str rd c @ ''/'' @ py_str rd u"

text \<open>\<^verbatim>\<open>s.split('/')[0]\<close>: the text before the first slash.\<close>

definition first_segment :: "string \<Rightarrow> string" where
  "first_segment s = takeWhile (\<lambda>c. c \<noteq> CHR ''/'') s"

section \<open>The two stores\<close>

text \<open>
  \<^verbatim>\<open>q\<close>, the body of a search: a dictionary one of whose values is a tuple
  (line 77 ends in a comma).
\<close>

datatype body_val = Val pyval | Tuple "pyval list"

record search_request =
  req_body :: "string \<rightharpoonup> body_val"
  req_index :: "string option"
  req_params :: pydict

text \<open>
  An index of the search engine holds documents under a document type and an
  id, both as the program passes them.
\<close>

type_synonym es_index = "(string \<times> pyval) \<rightharpoonup> pydict"
type_synonym es_store = "string option \<rightharpoonup> es_index"

text \<open>
  What a query returns is the engine's business, not the program's: the engine
  is a parameter, a function from the indexes and the request to the
  \<^verbatim>\<open>_id\<close> of each hit, in the order of \<^verbatim>\<open>results['hits']['hits']\<close>.
\<close>

type_synonym engine = "es_store \<Rightarrow> search_request \<Rightarrow> error + string list"

text \<open>The calls that go out to a store, in the order they are made.\<close>

datatype call =
    S3_get_key string
  | S3_read string
  | S3_set_contents string string blob
  | S3_delete_key string
  | S3_list
  | ES_create_index_call "string option"
  | ES_index_call "string option" string pydict pyval
  | ES_delete_call "string option" string pyval
  | ES_search_call search_request

text \<open>
  The world the program runs in: the bucket (keys in listing order, each with
  its content), the indexes, the calls made so far, for each coming call
  whether a store fails it (\<open>faults\<close>), the clock in milliseconds with the time
  that passes after each reading of it (\<open>elapse\<close>), and the identifiers that
  \<^verbatim>\<open>uuid4\<close> will draw.
\<close>

record world =
  bucket :: "(string \<times> blob) list"
  es :: es_store
  trace :: "call list"
  faults :: "bool stream"
  clock :: int
  elapse :: "nat stream"
  uuid4s :: "string stream"

type_synonym 'a io = "world \<Rightarrow> (error + 'a) \<times> world"

definition ok :: "'a \<Rightarrow> 'a io" where
  "ok x w = (Inr x, w)"

definition raise :: "error \<Rightarrow> 'a io" where
  "raise e w = (Inl e, w)"

text \<open>
  Sequencing: when the first part raises, the exception leaves the function and
  the rest does not run.
\<close>

definition and_then :: "'a io \<Rightarrow> ('a \<Rightarrow> 'b io) \<Rightarrow> 'b io" where
  "and_then m f w = (case m w of (Inl e, w') \<Rightarrow> (Inl e, w') | (Inr x, w') \<Rightarrow> f x w')"

definition lift :: "error + 'a \<Rightarrow> 'a io" where
  "lift r w = (r, w)"

text \<open>A call to a store is logged and uses up one entry of \<open>faults\<close>.\<close>

definition called :: "call \<Rightarrow> world \<Rightarrow> world" where
  "called c w = w\<lparr>trace := trace w @ [c], faults := stl (faults w)\<rparr>"

definition failing :: "world \<Rightarrow> bool" where
  "failing w = shd (faults w)"

subsection \<open>The bucket (boto)\<close>

text \<open>\<^verbatim>\<open>BUCKET.get_key(k)\<close>: the key, or \<^verbatim>\<open>None\<close> when the bucket has no such key.\<close>

definition BUCKET_get_key :: "string \<Rightarrow> string option io" where
  "BUCKET_get_key k w =
     (if failing w then (Inl S3ResponseError, called (S3_get_key k) w)
      else (Inr (case map_of (bucket w) k of None \<Rightarrow> None | Some b \<Rightarrow> Some k),
            called (S3_get_key k) w))"

text \<open>\<^verbatim>\<open>key.read()\<close>.\<close>

definition Key_read :: "string \<Rightarrow> blob io" where
  "Key_read k w =
     (if failing w then (Inl S3ResponseError, called (S3_read k) w)
      else (case map_of (bucket w) k of
              None \<Rightarrow> (Inl S3ResponseError, called (S3_read k) w)
            | Some b \<Rightarrow> (Inr b, called (S3_read k) w)))"

text \<open>
  \<^verbatim>\<open>BUCKET.new_key(k)\<close>, \<^verbatim>\<open>key.update_metadata({'Content-Type': t})\<close> and
  \<^verbatim>\<open>key.set_contents_from_string(b)\<close>: the first two stay in the process, the
  third writes.
\<close>

definition Key_set_contents_from_string :: "string \<Rightarrow> string \<Rightarrow> blob \<Rightarrow> unit io" where
  "Key_set_contents_from_string k t b w =
     (if failing w then (Inl S3ResponseError, called (S3_set_contents k t b) w)
      else (Inr (), (called (S3_set_contents k t b) w)\<lparr>bucket := AList.update k b (bucket w)\<rparr>))"

definition BUCKET_delete_key :: "string \<Rightarrow> unit io" where
  "BUCKET_delete_key k w =
     (if failing w then (Inl S3ResponseError, called (S3_delete_key k) w)
      else (Inr (), (called (S3_delete_key k) w)\<lparr>bucket := AList.delete k (bucket w)\<rparr>))"

definition BUCKET_list :: "string list io" where
  "BUCKET_list w =
     (if failing w then (Inl S3ResponseError, called S3_list w)
      else (Inr (map fst (bucket w)), called S3_list w))"

subsection \<open>The search engine (pyelasticsearch)\<close>

definition ES_create_index :: "string option \<Rightarrow> unit io" where
  "ES_create_index n w =
     (if failing w then (Inl ElasticHttpError, called (ES_create_index_call n) w)
      else (case es w n of
              Some ix \<Rightarrow> (Inl IndexAlreadyExistsError, called (ES_create_index_call n) w)
            | None \<Rightarrow> (Inr (), (called (ES_create_index_call n) w)\<lparr>es := (es w)(n \<mapsto> Map.empty)\<rparr>)))"

definition ES_index :: "string option \<Rightarrow> string \<Rightarrow> pydict \<Rightarrow> pyval \<Rightarrow> unit io" where
  "ES_index n t doc i w =
     (if failing w then (Inl ElasticHttpError, called (ES_index_call n t doc i) w)
      else (Inr (), (called (ES_index_call n t doc i) w)
              \<lparr>es := (es w)(n \<mapsto> (case es w n of None \<Rightarrow> Map.empty | Some ix \<Rightarrow> ix)((t, i) \<mapsto> doc))\<rparr>))"

definition ES_delete :: "string option \<Rightarrow> string \<Rightarrow> pyval \<Rightarrow> unit io" where
  "ES_delete n t i w =
     (if failing w then (Inl ElasticHttpError, called (ES_delete_call n t i) w)
      else (case es w n of
              None \<Rightarrow> (Inl ElasticHttpNotFoundError, called (ES_delete_call n t i) w)
            | Some ix \<Rightarrow>
                (case ix (t, i) of
                   None \<Rightarrow> (Inl ElasticHttpNotFoundError, called (ES_delete_call n t i) w)
                 | Some doc \<Rightarrow>
                     (Inr (), (called (ES_delete_call n t i) w)\<lparr>es := (es w)(n \<mapsto> ix((t, i) := None))\<rparr>))))"

definition ES_search :: "engine \<Rightarrow> search_request \<Rightarrow> string list io" where
  "ES_search eng req w =
     (if failing w then (Inl ElasticHttpError, called (ES_search_call req) w)
      else (eng (es w) req, called (ES_search_call req) w))"

section \<open>The program\<close>

subsection \<open>\<^verbatim>\<open>epoch\<close>\<close>

text \<open>
  \<^verbatim>\<open>epoch()\<close> with no argument: the clock, in milliseconds. (Its argument and
  the conversion of a date are not modelled.) The clock of the model does not
  go back: after a reading, the time in \<open>elapse\<close> passes.
\<close>

definition epoch_now :: "world \<Rightarrow> int \<times> world" where
  "epoch_now w = (clock w, w\<lparr>clock := clock w + int (shd (elapse w)), elapse := stl (elapse w)\<rparr>)"

definition uuid4 :: "world \<Rightarrow> string \<times> world" where
  "uuid4 w = (shd (uuid4s w), w\<lparr>uuid4s := stl (uuid4s w)\<rparr>)"

subsection \<open>\<^verbatim>\<open>class Record\<close>\<close>

record Record =
  uuid :: pyval
  data :: pydict
  epoch :: pyval
  collection_name :: "string option"

text \<open>\<^verbatim>\<open>Record.__init__\<close> (it never raises)\<close>

definition Record_init :: "Record io" where
  "Record_init w =
     (case uuid4 w of (u, w1) \<Rightarrow>
        (case epoch_now w1 of (t, w2) \<Rightarrow>
           (Inr \<lparr>uuid = PStr u, data = Map.empty, epoch = PInt t, collection_name = None\<rparr>, w2)))"

text \<open>\<^verbatim>\<open>Record.dict\<close>\<close>

definition Record_dict :: "Record \<Rightarrow> pydict" where
  "Record_dict r = (data r)(''uuid'' \<mapsto> uuid r, ''epoch'' \<mapsto> epoch r)"

text \<open>\<^verbatim>\<open>Record.json\<close>\<close>

definition Record_json :: "Record \<Rightarrow> blob" where
  "Record_json r = json_dumps (PDict (Map.empty(''record'' \<mapsto> PDict (Record_dict r))))"

text \<open>\<^verbatim>\<open>Record._persist\<close>\<close>

definition Record_persist :: "(pyval \<Rightarrow> string) \<Rightarrow> Record \<Rightarrow> unit io" where
  "Record_persist rd r =
     Key_set_contents_from_string (key_name rd (opt_val (collection_name r)) (uuid r))
       ''application/json'' (Record_json r)"

text \<open>\<^verbatim>\<open>Record._index\<close>; \<^verbatim>\<open>self.collection.name\<close> is \<^verbatim>\<open>self.collection_name\<close>.\<close>

definition Record_index :: "Record \<Rightarrow> unit io" where
  "Record_index r = ES_index (collection_name r) ''record'' (Record_dict r) (uuid r)"

text \<open>
  \<^verbatim>\<open>Record.save\<close>. It assigns \<^verbatim>\<open>self.epoch\<close>; the value returned here is the
  record as \<^verbatim>\<open>save\<close> leaves it.
\<close>

definition Record_save :: "(pyval \<Rightarrow> string) \<Rightarrow> Record \<Rightarrow> Record io" where
  "Record_save rd r w =
     (case epoch_now w of (t, w1) \<Rightarrow>
        and_then (Record_persist rd (r\<lparr>epoch := PInt t\<rparr>))
          (\<lambda>_. and_then (Record_index (r\<lparr>epoch := PInt t\<rparr>))
             (\<lambda>_. ok (r\<lparr>epoch := PInt t\<rparr>))) w1)"

text \<open>\<^verbatim>\<open>Record.delete\<close>\<close>

definition Record_delete :: "(pyval \<Rightarrow> string) \<Rightarrow> Record \<Rightarrow> unit io" where
  "Record_delete rd r =
     and_then (ES_delete (collection_name r) ''record'' (uuid r))
       (\<lambda>_. BUCKET_delete_key (key_name rd (opt_val (collection_name r)) (uuid r)))"

text \<open>
  Lines 174 to 179 of \<^verbatim>\<open>Record._from_uuid\<close>: the fresh record \<open>r\<close> takes the
  collection, then its identifier and its timestamp are popped from the parsed
  document \<open>j\<close>, and what is left of \<open>j\<close> is its data. A \<open>j\<close> that is no dictionary
  has no such \<^verbatim>\<open>pop\<close>.
\<close>

fun Record_load :: "string \<Rightarrow> pyval \<Rightarrow> Record \<Rightarrow> error + Record" where
  "Record_load c (PDict j) r =
     (case pop j ''uuid'' PNone of (u, j1) \<Rightarrow>
        (case pop j1 ''epoch'' PNone of (e, j2) \<Rightarrow>
           Inr (r\<lparr>collection_name := Some c, uuid := u, epoch := e, data := j2\<rparr>)))"
| "Record_load c (PList xs) r = Inl TypeError"
| "Record_load c v r = Inl AttributeError"

text \<open>
  Lines 165 to 168 of \<^verbatim>\<open>Record._from_uuid\<close>: the key to read and the collection
  of the record. \<^verbatim>\<open>if collection:\<close> holds for a string that is not empty.
\<close>

definition locate :: "string \<Rightarrow> string option \<Rightarrow> string \<times> string" where
  "locate u collection =
     (case collection of
        None \<Rightarrow> (u, first_segment u)
      | Some c \<Rightarrow> if c \<noteq> [] then (c @ ''/'' @ u, c) else (u, first_segment u))"

text \<open>
  \<^verbatim>\<open>Record._from_uuid\<close>. \<^verbatim>\<open>BUCKET.get_key\<close> gives \<^verbatim>\<open>None\<close> for a key that
  the bucket does not have, and \<^verbatim>\<open>None\<close> has no \<^verbatim>\<open>read\<close>.
\<close>

definition Record_from_uuid :: "string \<Rightarrow> string option \<Rightarrow> Record io" where
  "Record_from_uuid u collection =
     (case locate u collection of
        (k, c) \<Rightarrow>
          and_then (BUCKET_get_key k) (\<lambda>key.
          and_then (case key of None \<Rightarrow> raise AttributeError | Some kk \<Rightarrow> Key_read kk) (\<lambda>content.
          and_then (lift (json_loads content)) (\<lambda>v.
          and_then (lift (getitem v ''record'')) (\<lambda>j.
          and_then Record_init (\<lambda>r.
          lift (Record_load c j r)))))))"

subsection \<open>\<^verbatim>\<open>class Collection\<close>\<close>

record Collection =
  name :: "string option"

text \<open>\<^verbatim>\<open>Collection.__getitem__\<close>\<close>

definition Collection_getitem :: "Collection \<Rightarrow> string \<Rightarrow> Record io" where
  "Collection_getitem c k = Record_from_uuid k (name c)"

text \<open>
  The loop of \<^verbatim>\<open>iter_search\<close> over the hits, drained as \<^verbatim>\<open>search\<close> drains
  it: one record fetched per hit, in the order of the hits.
\<close>

primrec fetch_hits :: "Collection \<Rightarrow> string list \<Rightarrow> Record list io" where
  "fetch_hits c [] = ok []"
| "fetch_hits c (h # hs) =
     and_then (Record_from_uuid h (name c)) (\<lambda>r.
     and_then (fetch_hits c hs) (\<lambda>rs. ok (r # rs)))"

text \<open>\<^verbatim>\<open>params['es_{0}'.format(k)] = v\<close> for every \<open>(k, v)\<close> of \<open>kwargs\<close>.\<close>

definition es_params :: "pydict \<Rightarrow> pydict" where
  "es_params kwargs = (\<lambda>k. if take 3 k = ''es_'' then kwargs (drop 3 k) else None)"

text \<open>\<^verbatim>\<open>Collection.iter_search\<close>, from its parts.\<close>

definition search_query :: "pyval \<Rightarrow> pyval" where
  "search_query query = (if query = PNone then PStr ''*'' else query)"

definition search_body :: "pyval \<Rightarrow> string \<rightharpoonup> body_val" where
  "search_body query =
     Map.empty(
       ''sort'' \<mapsto> Val (PList [PDict (Map.empty(''epoch'' \<mapsto> PDict (Map.empty(''order'' \<mapsto> PStr ''desc''))))]),
       ''query'' \<mapsto> Tuple [PDict (Map.empty(''term'' \<mapsto> PDict (Map.empty(''query'' \<mapsto> query))))])"

text \<open>
  The request of lines 61 to 79: the query with \<^verbatim>\<open>*\<close> for \<^verbatim>\<open>None\<close>, the
  parameters with \<^verbatim>\<open>es_q\<close>, the body \<^verbatim>\<open>q\<close>, and the index \<^verbatim>\<open>self.name\<close>.
\<close>

definition search_request_for :: "Collection \<Rightarrow> pyval \<Rightarrow> pydict \<Rightarrow> search_request" where
  "search_request_for c query kwargs =
     \<lparr>req_body = search_body (search_query query),
      req_index = name c,
      req_params = (es_params kwargs)(''es_q'' \<mapsto> search_query query)\<rparr>"

definition Collection_iter_search :: "engine \<Rightarrow> Collection \<Rightarrow> pyval \<Rightarrow> pydict \<Rightarrow> Record list io" where
  "Collection_iter_search eng c query kwargs =
     and_then (ES_search eng (search_request_for c query kwargs)) (\<lambda>hits. fetch_hits c hits)"

text \<open>
  \<^verbatim>\<open>Collection.search\<close>: \<^verbatim>\<open>sort\<close> and \<^verbatim>\<open>size\<close>, when given, join the other
  keyword arguments (lines 88 to 91), and the iterator is drained.
\<close>

definition search_kwargs :: "pyval \<Rightarrow> pyval \<Rightarrow> pydict \<Rightarrow> pydict" where
  "search_kwargs sort' size' kwargs =
     (if size' \<noteq> PNone then (\<lambda>kw. kw(''size'' \<mapsto> size')) else (\<lambda>kw. kw))
       ((if sort' \<noteq> PNone then (\<lambda>kw. kw(''sort'' \<mapsto> sort')) else (\<lambda>kw. kw)) kwargs)"

definition Collection_search ::
    "engine \<Rightarrow> Collection \<Rightarrow> pyval \<Rightarrow> pyval \<Rightarrow> pyval \<Rightarrow> pydict \<Rightarrow> Record list io" where
  "Collection_search eng c query sort' size' kwargs =
     Collection_iter_search eng c query (search_kwargs sort' size' kwargs)"

text \<open>\<^verbatim>\<open>Collection.save\<close>: an index that exists already is no error.\<close>

definition Collection_save :: "Collection \<Rightarrow> unit io" where
  "Collection_save c w =
     (case ES_create_index (name c) w of
        (Inl e, w') \<Rightarrow> if e = IndexAlreadyExistsError then (Inr (), w') else (Inl e, w')
      | (Inr x, w') \<Rightarrow> (Inr x, w'))"

text \<open>\<^verbatim>\<open>Collection.new_record\<close>\<close>

definition Collection_new_record :: "Collection \<Rightarrow> Record io" where
  "Collection_new_record c =
     and_then Record_init (\<lambda>r. ok (r\<lparr>collection_name := name c\<rparr>))"

subsection \<open>\<^verbatim>\<open>seed\<close>\<close>

text \<open>
  The three loops of \<^verbatim>\<open>seed\<close>. The set \<^verbatim>\<open>indexes\<close> holds the first segment of
  every key, each once; it is gone through in the order that \<open>remdups\<close> leaves
  (Python goes through it in the order of the hashes).
\<close>

primrec seed_create :: "string list \<Rightarrow> unit io" where
  "seed_create [] = ok ()"
| "seed_create (i # rest) =
     and_then (Collection_save \<lparr>name = Some i\<rparr>) (\<lambda>_. seed_create rest)"

primrec seed_index :: "string list \<Rightarrow> unit io" where
  "seed_index [] = ok ()"
| "seed_index (k # ks) =
     and_then (Record_from_uuid k None) (\<lambda>r.
     and_then (Record_index r) (\<lambda>_. seed_index ks))"

definition seed :: "unit io" where
  "seed =
     and_then BUCKET_list (\<lambda>ks.
     and_then (seed_create (remdups (map first_segment ks))) (\<lambda>_.
     and_then BUCKET_list (\<lambda>ks'. seed_index ks')))"

section \<open>What an operation does to the bucket\<close>

text \<open>
  Kinds of calls, the search requests among a list of calls, and the operations
  that leave the bucket as it is and make only calls of a given kind.
\<close>

fun bucket_read :: "call \<Rightarrow> bool" where
  "bucket_read (S3_get_key k) = True"
| "bucket_read (S3_read k) = True"
| "bucket_read c = False"

fun bucket_write :: "call \<Rightarrow> bool" where
  "bucket_write (S3_set_contents k t b) = True"
| "bucket_write (S3_delete_key k) = True"
| "bucket_write c = False"

fun index_creation :: "call \<Rightarrow> bool" where
  "index_creation (ES_create_index_call n) = True"
| "index_creation c = False"

fun searches :: "call list \<Rightarrow> search_request list" where
  "searches [] = []"
| "searches (ES_search_call q # cs) = q # searches cs"
| "searches (c # cs) = searches cs"

text \<open>The queries (\<^verbatim>\<open>es_q\<close>) of the search requests among a list of calls.\<close>

definition sent_queries :: "call list \<Rightarrow> pyval option list" where
  "sent_queries cs = map (\<lambda>q. req_params q ''es_q'') (searches cs)"

definition leaves_bucket :: "(call \<Rightarrow> bool) \<Rightarrow> 'a io \<Rightarrow> bool" where
  "leaves_bucket P m =
     (\<forall>w. bucket (snd (m w)) = bucket w \<and>
          (\<exists>evs. trace (snd (m w)) = trace w @ evs \<and> list_all P evs))"

section \<open>Stored records and answers of the engine\<close>






text \<open>
  \<open>reindexed b k cs\<close>: \<open>cs\<close> are the calls of \<^verbatim>\<open>seed\<close> for the key \<open>k\<close> of the
  bucket \<open>b\<close>. The key is looked up and read, and the record of its document
  (with \<^verbatim>\<open>None\<close> for a reserved field that the document lacks) is written to
  the index named by the first segment of the key.
\<close>

definition reindexed :: "(string \<times> blob) list \<Rightarrow> string \<Rightarrow> call list \<Rightarrow> bool" where
  "reindexed b k cs =
     (\<exists>m j. map_of b k = Some (JsonText (PDict m)) \<and> m ''record'' = Some (PDict j) \<and>
        cs = [S3_get_key k, S3_read k,
              ES_index_call (Some (first_segment k)) ''record''
                (j(''uuid'' \<mapsto> fst (pop j ''uuid'' PNone), ''epoch'' \<mapsto> fst (pop j ''epoch'' PNone)))
                (fst (pop j ''uuid'' PNone))])"

section \<open>Basic facts\<close>

lemma called_simps [simp]:
  "trace (called c w) = trace w @ [c]"
  "faults (called c w) = stl (faults w)"
  "bucket (called c w) = bucket w"
  "es (called c w) = es w"
  "clock (called c w) = clock w"
  "elapse (called c w) = elapse w"
  "uuid4s (called c w) = uuid4s w"
  by (simp_all add: called_def)

lemma Record_init_frame [simp]:
  "trace (snd (Record_init w)) = trace w"
  "faults (snd (Record_init w)) = faults w"
  "bucket (snd (Record_init w)) = bucket w"
  "es (snd (Record_init w)) = es w"
  by (simp_all add: Record_init_def uuid4_def epoch_now_def)

lemma Record_init_Inr: "\<exists>r. fst (Record_init w) = Inr r"
  by (simp add: Record_init_def uuid4_def epoch_now_def)

lemma pop_fst: "fst (pop d k x) = (case d k of None \<Rightarrow> x | Some v \<Rightarrow> v)"
  by (simp add: pop_def split: option.splits)

lemma pop_snd: "snd (pop d k x) = d(k := None)"
  by (auto simp: pop_def split: option.splits)

lemma Record_load_PDict:
  "Record_load c (PDict j) r =
     Inr \<lparr>uuid = fst (pop j ''uuid'' PNone), data = j(''uuid'' := None, ''epoch'' := None),
          epoch = fst (pop j ''epoch'' PNone), collection_name = Some c\<rparr>"
proof -
  have "pop (snd (pop j ''uuid'' PNone)) ''epoch'' PNone =
          (fst (pop j ''epoch'' PNone), j(''uuid'' := None, ''epoch'' := None))"
    by (simp add: pop_snd prod_eq_iff pop_fst)
  then show ?thesis
    by (cases r) (simp add: case_prod_beta pop_snd)
qed

lemma and_then_InrE:
  assumes "and_then m f w = (Inr y, w')"
  obtains x w1 where "m w = (Inr x, w1)" and "f x w1 = (Inr y, w')"
  using assms by (auto simp: and_then_def split: prod.splits sum.splits)

lemma get_key_Inr:
  "BUCKET_get_key k w = (Inr key, w1) \<Longrightarrow>
     \<not> shd (faults w) \<and> w1 = called (S3_get_key k) w \<and>
     key = (case map_of (bucket w) k of None \<Rightarrow> None | Some b \<Rightarrow> Some k)"
  by (auto simp: BUCKET_get_key_def failing_def split: if_splits)

lemma Key_read_Inr:
  "Key_read k w = (Inr b, w1) \<Longrightarrow>
     \<not> shd (faults w) \<and> w1 = called (S3_read k) w \<and> map_of (bucket w) k = Some b"
  by (auto simp: Key_read_def failing_def split: if_splits option.splits)

lemma Record_load_Inr:
  "Record_load c v r0 = Inr r \<Longrightarrow>
     \<exists>j. v = PDict j \<and>
       r = \<lparr>uuid = fst (pop j ''uuid'' PNone), data = j(''uuid'' := None, ''epoch'' := None),
            epoch = fst (pop j ''epoch'' PNone), collection_name = Some c\<rparr>"
  by (cases v) (simp_all add: Record_load_PDict del: Record_load.simps(1))

lemma getitem_Inr: "getitem v k = Inr j \<Longrightarrow> \<exists>m. v = PDict m \<and> m k = Some j"
  by (cases v) (auto split: option.splits)

lemma json_loads_Inr: "json_loads b = Inr v \<Longrightarrow> b = JsonText v"
  by (cases b) auto

lemma from_uuid_Inr:
  assumes "Record_from_uuid u coll w = (Inr r, w')"
  shows "\<exists>m j. map_of (bucket w) (fst (locate u coll)) = Some (JsonText (PDict m)) \<and>
           m ''record'' = Some (PDict j) \<and>
           r = \<lparr>uuid = fst (pop j ''uuid'' PNone), data = j(''uuid'' := None, ''epoch'' := None),
                epoch = fst (pop j ''epoch'' PNone), collection_name = Some (snd (locate u coll))\<rparr> \<and>
           trace w' = trace w @ [S3_get_key (fst (locate u coll)), S3_read (fst (locate u coll))] \<and>
           bucket w' = bucket w \<and> es w' = es w \<and> faults w' = stl (stl (faults w)) \<and>
           \<not> shd (faults w) \<and> \<not> shd (stl (faults w))"
proof -
  obtain k c where kc: "locate u coll = (k, c)" by (cases "locate u coll")
  from assms kc have run:
    "and_then (BUCKET_get_key k) (\<lambda>key.
       and_then (case key of None \<Rightarrow> raise AttributeError | Some kk \<Rightarrow> Key_read kk) (\<lambda>content.
       and_then (lift (json_loads content)) (\<lambda>v.
       and_then (lift (getitem v ''record'')) (\<lambda>j.
       and_then Record_init (\<lambda>r.
       lift (Record_load c j r)))))) w = (Inr r, w')"
    by (simp add: Record_from_uuid_def)
  from run obtain key w1 where s1: "BUCKET_get_key k w = (Inr key, w1)"
    and r1: "and_then (case key of None \<Rightarrow> raise AttributeError | Some kk \<Rightarrow> Key_read kk) (\<lambda>content.
       and_then (lift (json_loads content)) (\<lambda>v.
       and_then (lift (getitem v ''record'')) (\<lambda>j.
       and_then Record_init (\<lambda>r.
       lift (Record_load c j r))))) w1 = (Inr r, w')"
    by (rule and_then_InrE)
  from r1 obtain content w2
    where s2: "(case key of None \<Rightarrow> raise AttributeError | Some kk \<Rightarrow> Key_read kk) w1 = (Inr content, w2)"
    and r2: "and_then (lift (json_loads content)) (\<lambda>v.
       and_then (lift (getitem v ''record'')) (\<lambda>j.
       and_then Record_init (\<lambda>r.
       lift (Record_load c j r)))) w2 = (Inr r, w')"
    by (rule and_then_InrE)
  from r2 obtain v w3 where s3: "lift (json_loads content) w2 = (Inr v, w3)"
    and r3: "and_then (lift (getitem v ''record'')) (\<lambda>j.
       and_then Record_init (\<lambda>r.
       lift (Record_load c j r))) w3 = (Inr r, w')"
    by (rule and_then_InrE)
  from r3 obtain j w4 where s4: "lift (getitem v ''record'') w3 = (Inr j, w4)"
    and r4: "and_then Record_init (\<lambda>r.
       lift (Record_load c j r)) w4 = (Inr r, w')"
    by (rule and_then_InrE)
  from r4 obtain r0 w5 where s5: "Record_init w4 = (Inr r0, w5)"
    and r5: "lift (Record_load c j r0) w5 = (Inr r, w')"
    by (rule and_then_InrE)
  from get_key_Inr [OF s1] have f1: "\<not> shd (faults w)" and w1: "w1 = called (S3_get_key k) w"
    and key: "key = (case map_of (bucket w) k of None \<Rightarrow> None | Some b \<Rightarrow> Some k)"
    by simp_all
  from s2 have key': "key = Some k"
    using key by (cases "map_of (bucket w) k") (simp_all add: raise_def)
  from s2 key' have "Key_read k w1 = (Inr content, w2)" by simp
  from Key_read_Inr [OF this] have f2: "\<not> shd (faults w1)" and w2: "w2 = called (S3_read k) w1"
    and content: "map_of (bucket w1) k = Some content"
    by simp_all
  from s3 have v: "content = JsonText v" and w3: "w3 = w2"
    by (auto simp: lift_def dest: json_loads_Inr)
  from s4 obtain m where m: "v = PDict m" "m ''record'' = Some j" and w4: "w4 = w3"
    by (auto simp: lift_def dest: getitem_Inr)
  from s5 have w5: "w5 = snd (Record_init w4)"
    by simp
  from r5 have ld: "Record_load c j r0 = Inr r" and w': "w' = w5"
    by (auto simp: lift_def)
  from Record_load_Inr [OF ld] obtain jj where jj: "j = PDict jj"
    and r: "r = \<lparr>uuid = fst (pop jj ''uuid'' PNone), data = jj(''uuid'' := None, ''epoch'' := None),
            epoch = fst (pop jj ''epoch'' PNone), collection_name = Some c\<rparr>"
    by blast
  show ?thesis
    using kc f1 f2 w1 w2 w3 w4 w5 w' content v m jj r
    by (intro exI [of _ m] exI [of _ jj]) simp
qed

lemma from_uuid_found:
  assumes "locate u coll = (k, c)"
    and "map_of (bucket w) k = Some (JsonText (PDict m))"
    and "m ''record'' = Some (PDict j)"
    and "\<not> shd (faults w)" and "\<not> shd (stl (faults w))"
  shows "Record_from_uuid u coll w =
           (Inr \<lparr>uuid = fst (pop j ''uuid'' PNone), data = j(''uuid'' := None, ''epoch'' := None),
                 epoch = fst (pop j ''epoch'' PNone), collection_name = Some c\<rparr>,
            snd (Record_init (called (S3_read k) (called (S3_get_key k) w))))"
proof -
  obtain r0 wi where "Record_init (called (S3_read k) (called (S3_get_key k) w)) = (Inr r0, wi)"
    using Record_init_Inr [of "called (S3_read k) (called (S3_get_key k) w)"]
    by (cases "Record_init (called (S3_read k) (called (S3_get_key k) w))") auto
  with assms show ?thesis
    by (simp add: Record_from_uuid_def and_then_def BUCKET_get_key_def Key_read_def failing_def
        lift_def Record_load_PDict del: Record_load.simps(1))
qed

lemma from_uuid_missing:
  assumes "locate u coll = (k, c)" and "map_of (bucket w) k = None"
  shows "Record_from_uuid u coll w =
           (Inl (if failing w then S3ResponseError else AttributeError), called (S3_get_key k) w)"
  using assms
  by (simp add: Record_from_uuid_def and_then_def BUCKET_get_key_def raise_def)

lemma persist_run:
  "Record_persist rd r w =
     (if failing w
      then (Inl S3ResponseError,
            called (S3_set_contents (key_name rd (opt_val (collection_name r)) (uuid r))
                      ''application/json'' (Record_json r)) w)
      else (Inr (),
            (called (S3_set_contents (key_name rd (opt_val (collection_name r)) (uuid r))
                      ''application/json'' (Record_json r)) w)
              \<lparr>bucket := AList.update (key_name rd (opt_val (collection_name r)) (uuid r))
                           (Record_json r) (bucket w)\<rparr>))"
  by (simp add: Record_persist_def Key_set_contents_from_string_def)

lemma save_run:
  "Record_save rd r w =
     (if failing w
      then (Inl S3ResponseError,
            called (S3_set_contents (key_name rd (opt_val (collection_name r)) (uuid r))
                      ''application/json'' (Record_json (r\<lparr>epoch := PInt (clock w)\<rparr>)))
              (snd (epoch_now w)))
      else and_then (Record_index (r\<lparr>epoch := PInt (clock w)\<rparr>))
             (\<lambda>_. ok (r\<lparr>epoch := PInt (clock w)\<rparr>))
             ((called (S3_set_contents (key_name rd (opt_val (collection_name r)) (uuid r))
                      ''application/json'' (Record_json (r\<lparr>epoch := PInt (clock w)\<rparr>)))
                (snd (epoch_now w)))
               \<lparr>bucket := AList.update (key_name rd (opt_val (collection_name r)) (uuid r))
                            (Record_json (r\<lparr>epoch := PInt (clock w)\<rparr>)) (bucket w)\<rparr>))"
  by (simp add: Record_save_def epoch_now_def persist_run and_then_def failing_def)

lemma index_run:
  "Record_index r w =
     (if failing w
      then (Inl ElasticHttpError,
            called (ES_index_call (collection_name r) ''record'' (Record_dict r) (uuid r)) w)
      else (Inr (),
            (called (ES_index_call (collection_name r) ''record'' (Record_dict r) (uuid r)) w)
              \<lparr>es := (es w)(collection_name r \<mapsto>
                  (case es w (collection_name r) of None \<Rightarrow> Map.empty | Some ix \<Rightarrow> ix)
                    ((''record'', uuid r) \<mapsto> Record_dict r))\<rparr>))"
  by (simp add: Record_index_def ES_index_def)

lemma save_Inr:
  assumes "Record_save rd r w = (Inr r1, w1)"
  shows "r1 = r\<lparr>epoch := PInt (clock w)\<rparr>"
    and "map_of (bucket w1) (key_name rd (opt_val (collection_name r)) (uuid r)) = Some (Record_json r1)"
    and "faults w1 = stl (stl (faults w))"
    and "\<not> shd (faults w)" and "\<not> shd (stl (faults w))"
  using assms
  by (auto simp: save_run index_run and_then_def ok_def failing_def epoch_now_def update_conv'
      split: if_splits)

lemma save_no_faults:
  assumes "\<not> shd (faults w)" and "\<not> shd (stl (faults w))"
  shows "\<exists>w1. Record_save rd r w = (Inr (r\<lparr>epoch := PInt (clock w)\<rparr>), w1)"
  using assms
  by (simp add: save_run index_run and_then_def ok_def failing_def epoch_now_def)

lemma dict_strip:
  "(Record_dict r)(''uuid'' := None, ''epoch'' := None) = (data r)(''uuid'' := None, ''epoch'' := None)"
  by (auto simp: Record_dict_def fun_eq_iff)


lemma Record_load_fresh: "Record_load c j r = Record_load c j r'"
  by (cases j) (simp_all add: Record_load_PDict del: Record_load.simps(1))

lemma from_uuid_decode:
  assumes "locate u coll = (k, c)"
    and "map_of (bucket w) k = Some b"
    and "\<not> shd (faults w)" and "\<not> shd (stl (faults w))"
  shows "fst (Record_from_uuid u coll w) =
           (case json_loads b of
              Inl e \<Rightarrow> Inl e
            | Inr v \<Rightarrow> (case getitem v ''record'' of
                         Inl e \<Rightarrow> Inl e
                       | Inr j \<Rightarrow> Record_load c j r0))"
proof -
  obtain r1 wi where "Record_init (called (S3_read k) (called (S3_get_key k) w)) = (Inr r1, wi)"
    using Record_init_Inr [of "called (S3_read k) (called (S3_get_key k) w)"]
    by (cases "Record_init (called (S3_read k) (called (S3_get_key k) w))") auto
  with assms show ?thesis
    using Record_load_fresh [of c _ r1 r0]
    by (simp add: Record_from_uuid_def and_then_def BUCKET_get_key_def Key_read_def failing_def
        lift_def split: sum.splits)
qed

lemma delete_Inr:
  assumes "Record_delete rd r w = (Inr (), w')"
  shows "bucket w' = AList.delete (key_name rd (opt_val (collection_name r)) (uuid r)) (bucket w)"
    and "faults w' = stl (stl (faults w))"
  using assms
  by (auto simp: Record_delete_def and_then_def ES_delete_def BUCKET_delete_key_def failing_def
      split: if_splits option.splits)

lemma delete_no_faults:
  assumes "\<not> shd (faults w)" and "\<not> shd (stl (faults w))"
    and "es w (collection_name r) = Some ix" and "ix (''record'', uuid r) = Some d"
  shows "\<exists>w'. Record_delete rd r w = (Inr (), w')"
  using assms
  by (simp add: Record_delete_def and_then_def ES_delete_def BUCKET_delete_key_def failing_def)

lemma save_indexed:
  assumes "Record_save rd r w = (Inr r1, w1)"
  shows "\<exists>ix. es w1 (collection_name r) = Some ix \<and> ix (''record'', uuid r) = Some (Record_dict r1)"
  using assms
  by (auto simp: save_run index_run and_then_def ok_def failing_def epoch_now_def
      split: if_splits)

lemma persist_then_fetch:
  assumes "\<not> shd (faults w)" and "\<not> shd (stl (faults w))" and "\<not> shd (stl (stl (faults w)))"
    and "collection_name r = Some c" and "c \<noteq> []"
  shows "fst (Record_from_uuid (py_str rd (uuid r)) (Some c) (snd (Record_persist rd r w))) =
           Inr \<lparr>uuid = uuid r, data = (data r)(''uuid'' := None, ''epoch'' := None),
                epoch = epoch r, collection_name = Some c\<rparr>"
proof -
  let ?w1 = "snd (Record_persist rd r w)"
  have loc: "locate (py_str rd (uuid r)) (Some c) = (c @ ''/'' @ py_str rd (uuid r), c)"
    using assms by (simp add: locate_def)
  have b: "map_of (bucket ?w1) (c @ ''/'' @ py_str rd (uuid r)) =
          Some (JsonText (PDict (Map.empty(''record'' \<mapsto> PDict (Record_dict r)))))"
    using assms by (simp add: persist_run failing_def key_name_def Record_json_def json_dumps_def
        update_conv')
  have up: "\<not> shd (faults ?w1)" "\<not> shd (stl (faults ?w1))"
    using assms by (simp_all add: persist_run failing_def)
  from from_uuid_found [OF loc b _ up, of "Record_dict r"]
  show ?thesis
    by (simp add: dict_strip pop_fst) (simp add: Record_dict_def)
qed

lemma leaves_bucket_trace:
  "leaves_bucket P m \<Longrightarrow> \<exists>evs. trace (snd (m w)) = trace w @ evs \<and> list_all P evs"
  by (simp add: leaves_bucket_def)

lemma leaves_bucket_bucket: "leaves_bucket P m \<Longrightarrow> bucket (snd (m w)) = bucket w"
  by (simp add: leaves_bucket_def)

lemma leaves_bucket_ok: "leaves_bucket P (ok x)"
  by (simp add: leaves_bucket_def ok_def)

lemma leaves_bucket_raise: "leaves_bucket P (raise e)"
  by (simp add: leaves_bucket_def raise_def)

lemma leaves_bucket_lift: "leaves_bucket P (lift r)"
  by (simp add: leaves_bucket_def lift_def)

lemma leaves_bucket_init: "leaves_bucket P Record_init"
  by (simp add: leaves_bucket_def)

lemma leaves_bucket_and_then:
  assumes m: "leaves_bucket P m" and f: "\<And>x. leaves_bucket P (f x)"
  shows "leaves_bucket P (and_then m f)"
  unfolding leaves_bucket_def
proof (intro allI)
  fix w
  obtain res w1 where mw: "m w = (res, w1)" by (cases "m w")
  from m mw obtain evs1 where b1: "bucket w1 = bucket w"
    and t1: "trace w1 = trace w @ evs1" and p1: "list_all P evs1"
    unfolding leaves_bucket_def by (metis snd_conv)
  show "bucket (snd (and_then m f w)) = bucket w \<and>
      (\<exists>evs. trace (snd (and_then m f w)) = trace w @ evs \<and> list_all P evs)"
  proof (cases res)
    case (Inl e)
    with mw b1 t1 p1 show ?thesis by (simp add: and_then_def)
  next
    case (Inr x)
    from f [of x] obtain evs2 where b2: "bucket (snd (f x w1)) = bucket w1"
      and t2: "trace (snd (f x w1)) = trace w1 @ evs2" and p2: "list_all P evs2"
      unfolding leaves_bucket_def by blast
    from Inr mw have "and_then m f w = f x w1" by (simp add: and_then_def)
    with b1 t1 p1 b2 t2 p2 show ?thesis
      by (intro conjI exI [of _ "evs1 @ evs2"]) simp_all
  qed
qed

lemma leaves_bucket_get_key: "P (S3_get_key k) \<Longrightarrow> leaves_bucket P (BUCKET_get_key k)"
  by (simp add: leaves_bucket_def BUCKET_get_key_def)

lemma leaves_bucket_read: "P (S3_read k) \<Longrightarrow> leaves_bucket P (Key_read k)"
  by (simp add: leaves_bucket_def Key_read_def split: option.splits)

lemma leaves_bucket_list: "P S3_list \<Longrightarrow> leaves_bucket P BUCKET_list"
  by (simp add: leaves_bucket_def BUCKET_list_def)

lemma leaves_bucket_index:
  "P (ES_index_call (collection_name r) ''record'' (Record_dict r) (uuid r)) \<Longrightarrow>
     leaves_bucket P (Record_index r)"
  by (simp add: leaves_bucket_def index_run)

lemma leaves_bucket_save: "P (ES_create_index_call (name c)) \<Longrightarrow> leaves_bucket P (Collection_save c)"
  by (simp add: leaves_bucket_def Collection_save_def ES_create_index_def split: option.splits)

lemma leaves_bucket_from_uuid:
  assumes "\<And>k. P (S3_get_key k)" and "\<And>k. P (S3_read k)"
  shows "leaves_bucket P (Record_from_uuid u coll)"
  unfolding Record_from_uuid_def
  by (auto split: prod.splits option.splits
      intro!: leaves_bucket_and_then leaves_bucket_get_key leaves_bucket_read leaves_bucket_raise
        leaves_bucket_lift leaves_bucket_init assms)

lemma leaves_bucket_fetch_hits:
  assumes "\<And>k. P (S3_get_key k)" and "\<And>k. P (S3_read k)"
  shows "leaves_bucket P (fetch_hits c hs)"
  by (induction hs)
    (auto intro!: leaves_bucket_and_then leaves_bucket_ok leaves_bucket_from_uuid assms)

lemma searches_reads: "list_all bucket_read evs \<Longrightarrow> searches evs = []"
  by (induction evs rule: searches.induct) simp_all

lemma iter_search_run:
  "Collection_iter_search eng c query kwargs w =
     (if failing w
      then (Inl ElasticHttpError, called (ES_search_call (search_request_for c query kwargs)) w)
      else (case eng (es w) (search_request_for c query kwargs) of
              Inl e \<Rightarrow> (Inl e, called (ES_search_call (search_request_for c query kwargs)) w)
            | Inr hits \<Rightarrow>
                fetch_hits c hits (called (ES_search_call (search_request_for c query kwargs)) w)))"
  by (simp add: Collection_iter_search_def and_then_def ES_search_def split: sum.splits)

lemma iter_search_trace:
  "\<exists>evs. trace (snd (Collection_iter_search eng c query kwargs w)) =
          trace w @ ES_search_call (search_request_for c query kwargs) # evs
        \<and> list_all bucket_read evs"
proof -
  let ?w1 = "called (ES_search_call (search_request_for c query kwargs)) w"
  have fetch: "\<exists>evs. trace (snd (fetch_hits c hs ?w1)) = trace ?w1 @ evs \<and> list_all bucket_read evs"
    for hs
    by (rule leaves_bucket_trace, rule leaves_bucket_fetch_hits) simp_all
  show ?thesis
  proof (cases "failing w")
    case True
    then show ?thesis by (simp add: iter_search_run)
  next
    case False
    show ?thesis
    proof (cases "eng (es w) (search_request_for c query kwargs)")
      case (Inl e)
      with False show ?thesis by (simp add: iter_search_run)
    next
      case (Inr hits)
      from fetch [of hits] obtain evs
        where "trace (snd (fetch_hits c hits ?w1)) = trace ?w1 @ evs" and "list_all bucket_read evs"
        by blast
      with False Inr show ?thesis by (simp add: iter_search_run)
    qed
  qed
qed









lemma leaves_bucket_seed_create:
  assumes "\<And>n. P (ES_create_index_call n)"
  shows "leaves_bucket P (seed_create ns)"
  by (induction ns)
    (auto intro!: leaves_bucket_and_then leaves_bucket_ok leaves_bucket_save assms)

lemma leaves_bucket_seed_index:
  assumes "\<And>k. P (S3_get_key k)" and "\<And>k. P (S3_read k)"
    and "\<And>n t d i. P (ES_index_call n t d i)"
  shows "leaves_bucket P (seed_index ks)"
  by (induction ks)
    (auto intro!: leaves_bucket_and_then leaves_bucket_ok leaves_bucket_from_uuid
       leaves_bucket_index assms)

lemma leaves_bucket_seed: "leaves_bucket (\<lambda>c. \<not> bucket_write c) seed"
  unfolding seed_def
  by (auto intro!: leaves_bucket_and_then leaves_bucket_list leaves_bucket_seed_create
      leaves_bucket_seed_index)

lemma list_Inr:
  "BUCKET_list w = (Inr ks, w1) \<Longrightarrow> ks = map fst (bucket w) \<and> w1 = called S3_list w"
  by (auto simp: BUCKET_list_def split: if_splits)

lemma index_Inr:
  "Record_index r w = (Inr x, w1) \<Longrightarrow>
     trace w1 = trace w @ [ES_index_call (collection_name r) ''record'' (Record_dict r) (uuid r)] \<and>
     bucket w1 = bucket w"
  by (auto simp: index_run split: if_splits)

lemma dict_of_loaded:
  "Record_dict \<lparr>uuid = u, data = j(''uuid'' := None, ''epoch'' := None), epoch = e,
                collection_name = c\<rparr> = j(''uuid'' \<mapsto> u, ''epoch'' \<mapsto> e)"
  by (auto simp: Record_dict_def fun_eq_iff)

lemma seed_index_Inr:
  "seed_index ks w = (Inr x, w') \<Longrightarrow>
     \<exists>chunks. trace w' = trace w @ concat chunks \<and> list_all2 (reindexed (bucket w)) ks chunks"
proof (induction ks arbitrary: w)
  case Nil
  then show ?case by (simp add: ok_def)
next
  case (Cons k ks)
  from Cons.prems obtain r w1 where s1: "Record_from_uuid k None w = (Inr r, w1)"
    and r1: "and_then (Record_index r) (\<lambda>_. seed_index ks) w1 = (Inr x, w')"
    by (auto elim: and_then_InrE)
  from r1 obtain y w2 where s2: "Record_index r w1 = (Inr y, w2)"
    and r2: "seed_index ks w2 = (Inr x, w')"
    by (rule and_then_InrE)
  have loc: "locate k None = (k, first_segment k)"
    by (simp add: locate_def)
  from from_uuid_Inr [OF s1] loc obtain m j
    where m: "map_of (bucket w) k = Some (JsonText (PDict m))" "m ''record'' = Some (PDict j)"
      and r: "r = \<lparr>uuid = fst (pop j ''uuid'' PNone), data = j(''uuid'' := None, ''epoch'' := None),
                epoch = fst (pop j ''epoch'' PNone), collection_name = Some (first_segment k)\<rparr>"
      and t1: "trace w1 = trace w @ [S3_get_key k, S3_read k]" and b1: "bucket w1 = bucket w"
    by auto
  from index_Inr [OF s2] r
  have t2: "trace w2 = trace w1 @
      [ES_index_call (Some (first_segment k)) ''record''
         (j(''uuid'' \<mapsto> fst (pop j ''uuid'' PNone), ''epoch'' \<mapsto> fst (pop j ''epoch'' PNone)))
         (fst (pop j ''uuid'' PNone))]"
    and b2: "bucket w2 = bucket w1"
    by (simp_all add: dict_of_loaded)
  from Cons.IH [OF r2] obtain chunks where t3: "trace w' = trace w2 @ concat chunks"
    and c3: "list_all2 (reindexed (bucket w2)) ks chunks"
    by blast
  let ?chunk = "[S3_get_key k, S3_read k,
      ES_index_call (Some (first_segment k)) ''record''
         (j(''uuid'' \<mapsto> fst (pop j ''uuid'' PNone), ''epoch'' \<mapsto> fst (pop j ''epoch'' PNone)))
         (fst (pop j ''uuid'' PNone))]"
  have "reindexed (bucket w) k ?chunk"
    unfolding reindexed_def using m by blast
  with c3 b1 b2 have "list_all2 (reindexed (bucket w)) (k # ks) (?chunk # chunks)"
    by simp
  moreover from t1 t2 t3 have "trace w' = trace w @ concat (?chunk # chunks)"
    by simp
  ultimately show ?case by blast
qed

lemma seed_Inr:
  assumes "seed w = (Inr x, w')"
  shows "\<exists>creates chunks.
           trace w' = trace w @ S3_list # creates @ S3_list # concat chunks \<and>
           list_all index_creation creates \<and>
           list_all2 (reindexed (bucket w)) (map fst (bucket w)) chunks"
proof -
  from assms obtain ks w1 where s1: "BUCKET_list w = (Inr ks, w1)"
    and r1: "and_then (seed_create (remdups (map first_segment ks))) (\<lambda>_.
               and_then BUCKET_list (\<lambda>ks'. seed_index ks')) w1 = (Inr x, w')"
    unfolding seed_def by (rule and_then_InrE)
  from r1 obtain y w2 where s2: "seed_create (remdups (map first_segment ks)) w1 = (Inr y, w2)"
    and r2: "and_then BUCKET_list (\<lambda>ks'. seed_index ks') w2 = (Inr x, w')"
    by (rule and_then_InrE)
  from r2 obtain ks' w3 where s3: "BUCKET_list w2 = (Inr ks', w3)"
    and r3: "seed_index ks' w3 = (Inr x, w')"
    by (rule and_then_InrE)
  from list_Inr [OF s1] have w1: "w1 = called S3_list w" by simp
  have lb: "leaves_bucket index_creation (seed_create (remdups (map first_segment ks)))"
    by (rule leaves_bucket_seed_create) simp
  from leaves_bucket_trace [OF lb, of w1] leaves_bucket_bucket [OF lb, of w1] s2
  obtain creates where t2: "trace w2 = trace w1 @ creates" and c2: "list_all index_creation creates"
    and b2: "bucket w2 = bucket w1"
    by auto
  from list_Inr [OF s3] have ks': "ks' = map fst (bucket w2)" and w3: "w3 = called S3_list w2"
    by simp_all
  from seed_index_Inr [OF r3] obtain chunks where t4: "trace w' = trace w3 @ concat chunks"
    and c4: "list_all2 (reindexed (bucket w3)) ks' chunks"
    by blast
  from w1 b2 w3 ks' c4 have "list_all2 (reindexed (bucket w)) (map fst (bucket w)) chunks"
    by simp
  moreover from w1 t2 w3 t4 have "trace w' = trace w @ S3_list # creates @ S3_list # concat chunks"
    by simp
  ultimately show ?thesis using c2 by blast
qed

section \<open>Examples\<close>

text \<open>
  A world with nothing stored in which no call fails, and a record of the
  collection \<^verbatim>\<open>widgets\<close>.
\<close>

definition w_ex :: world where
  "w_ex = \<lparr>bucket = [], es = Map.empty, trace = [], faults = sconst False,
            clock = 1000, elapse = sconst 1, uuid4s = sconst ''fresh''\<rparr>"

text \<open>A text for the values that are neither strings nor \<^verbatim>\<open>None\<close>.\<close>

definition rd_ex :: "pyval \<Rightarrow> string" where
  "rd_ex v = ''?''"

definition r_ex :: Record where
  "r_ex = \<lparr>uuid = PStr ''abc123'', data = Map.empty(''color'' \<mapsto> PStr ''red''),
            epoch = PInt 0, collection_name = Some ''widgets''\<rparr>"


text \<open>
  A bucket that holds the map of \<open>r_ex\<close> with no \<^verbatim>\<open>record\<close> around it, and a
  bucket whose one document has neither \<^verbatim>\<open>uuid\<close> nor \<^verbatim>\<open>epoch\<close>.
\<close>

definition w_bare :: world where
  "w_bare = w_ex\<lparr>bucket := [(''widgets/abc123'', json_dumps (PDict (Record_dict r_ex)))]\<rparr>"

definition w_sparse :: world where
  "w_sparse = w_ex\<lparr>bucket :=
     [(''widgets/abc123'',
       JsonText (PDict (Map.empty(''record'' \<mapsto> PDict (Map.empty(''color'' \<mapsto> PStr ''red''))))))]\<rparr>"

text \<open>A bucket whose one document has a number for its \<^verbatim>\<open>record\<close>.\<close>

definition w_odd :: world where
  "w_odd = w_ex\<lparr>bucket :=
     [(''widgets/abc123'', JsonText (PDict (Map.empty(''record'' \<mapsto> PInt 5))))]\<rparr>"

text \<open>An engine that finds nothing.\<close>

definition eng_none :: engine where
  "eng_none ixs req = Inr []"

text \<open>
  Three records of \<^verbatim>\<open>widgets\<close> saved at the times 10, 20 and 30, a world that
  holds them in the bucket and in the index, and an engine that answers every
  request with those of the identifiers \<open>cands\<close> that the index holds, newest
  first.
\<close>

definition r_a :: Record where
  "r_a = \<lparr>uuid = PStr ''a'', data = Map.empty(''size'' \<mapsto> PStr ''small''),
           epoch = PInt 10, collection_name = Some ''widgets''\<rparr>"

definition r_b :: Record where
  "r_b = \<lparr>uuid = PStr ''b'', data = Map.empty(''size'' \<mapsto> PStr ''medium''),
           epoch = PInt 20, collection_name = Some ''widgets''\<rparr>"

definition r_c :: Record where
  "r_c = \<lparr>uuid = PStr ''c'', data = Map.empty(''size'' \<mapsto> PStr ''large''),
           epoch = PInt 30, collection_name = Some ''widgets''\<rparr>"

definition ix_three :: es_index where
  "ix_three = Map.empty((''record'', PStr ''a'') \<mapsto> Record_dict r_a,
                        (''record'', PStr ''b'') \<mapsto> Record_dict r_b,
                        (''record'', PStr ''c'') \<mapsto> Record_dict r_c)"

definition w_three :: world where
  "w_three = w_ex\<lparr>bucket := [(''widgets/a'', Record_json r_a), (''widgets/b'', Record_json r_b),
                              (''widgets/c'', Record_json r_c)],
                   es := Map.empty(Some ''widgets'' \<mapsto> ix_three)\<rparr>"







lemma seed_three: "fst (seed w_three) = Inr ()"
  by (simp add: seed_def and_then_def BUCKET_list_def failing_def called_def w_three_def w_ex_def
      first_segment_def Collection_save_def ES_create_index_def ok_def
      Record_from_uuid_def locate_def BUCKET_get_key_def Key_read_def lift_def
      Record_json_def json_dumps_def Record_init_def uuid4_def epoch_now_def
      index_run raise_def Record_load_PDict del: Record_load.simps(1))

section \<open>The serialized form of a record and its key\<close>

text \<open>
  Claim C1. The serialized form of a record (\<^verbatim>\<open>Record.dict\<close>) is its payload merged
  with the two reserved fields, the identifier under the key \<^verbatim>\<open>uuid\<close> and the
  timestamp under \<^verbatim>\<open>epoch\<close>. It is the document that \<^verbatim>\<open>_index\<close> hands to the
  search engine, and \<^verbatim>\<open>_persist\<close> writes it, under \<^verbatim>\<open>record\<close>, as JSON to the key
  \<^verbatim>\<open>{collection_name}/{uuid}\<close> of the bucket, where it is found once the write
  has not failed. For a collection \<open>c\<close> and an identifier \<open>u\<close> that key is
  \<open>c/u\<close>.
\<close>

theorem record_serialized_form_and_key:
  "Record_dict r = data r ++ (Map.empty(''uuid'' \<mapsto> uuid r, ''epoch'' \<mapsto> epoch r))
   \<and> trace (snd (Record_index r w)) =
       trace w @ [ES_index_call (collection_name r) ''record'' (Record_dict r) (uuid r)]
   \<and> trace (snd (Record_persist rd r w)) =
       trace w @ [S3_set_contents (key_name rd (opt_val (collection_name r)) (uuid r))
                    ''application/json''
                    (JsonText (PDict (Map.empty(''record'' \<mapsto> PDict (Record_dict r)))))]
   \<and> (\<not> failing w \<longrightarrow>
        map_of (bucket (snd (Record_persist rd r w)))
          (key_name rd (opt_val (collection_name r)) (uuid r)) =
        Some (JsonText (PDict (Map.empty(''record'' \<mapsto> PDict (Record_dict r))))))
   \<and> key_name rd (opt_val (Some c)) (PStr u) = c @ ''/'' @ u"
proof -
  have "Record_dict r = data r ++ (Map.empty(''uuid'' \<mapsto> uuid r, ''epoch'' \<mapsto> epoch r))"
    by (simp add: Record_dict_def)
  moreover have "trace (snd (Record_index r w)) =
       trace w @ [ES_index_call (collection_name r) ''record'' (Record_dict r) (uuid r)]"
    by (simp add: Record_index_def ES_index_def)
  moreover have "Record_json r = JsonText (PDict (Map.empty(''record'' \<mapsto> PDict (Record_dict r))))"
    by (simp add: Record_json_def json_dumps_def)
  moreover have "key_name rd (opt_val (Some c)) (PStr u) = c @ ''/'' @ u"
    by (simp add: key_name_def)
  ultimately show ?thesis
    by (simp add: persist_run update_conv')
qed

theorem record_serialized_form_and_key_witness:
  "\<not> failing w_ex
   \<and> Record_dict r_ex =
       Map.empty(''color'' \<mapsto> PStr ''red'', ''uuid'' \<mapsto> PStr ''abc123'', ''epoch'' \<mapsto> PInt 0)
   \<and> map_of (bucket (snd (Record_persist rd_ex r_ex w_ex))) ''widgets/abc123'' =
       Some (JsonText (PDict (Map.empty(''record'' \<mapsto> PDict (Record_dict r_ex)))))"
  using record_serialized_form_and_key [of r_ex w_ex rd_ex "''widgets''" "''abc123''"]
  by (simp add: failing_def w_ex_def r_ex_def key_name_def Record_dict_def)

section \<open>The order of the two writes of a save\<close>

text \<open>
  Claim C2. The calls that one \<^verbatim>\<open>save()\<close> makes are the write to the bucket and,
  only when that write has not failed, after it the write to the index. When
  the write to the bucket fails, \<^verbatim>\<open>save()\<close> fails with its error and the indexes
  are as they were. When it does not fail, the bucket holds the document
  whatever becomes of the write to the index.
\<close>

theorem save_writes_blob_before_index:
  "trace (snd (Record_save rd r w)) =
     trace w @
       S3_set_contents (key_name rd (opt_val (collection_name r)) (uuid r)) ''application/json''
         (Record_json (r\<lparr>epoch := PInt (clock w)\<rparr>)) #
       (if failing w then []
        else [ES_index_call (collection_name r) ''record''
                (Record_dict (r\<lparr>epoch := PInt (clock w)\<rparr>)) (uuid r)])
   \<and> (failing w \<longrightarrow>
        fst (Record_save rd r w) = Inl S3ResponseError \<and>
        es (snd (Record_save rd r w)) = es w)
   \<and> (\<not> failing w \<longrightarrow>
        map_of (bucket (snd (Record_save rd r w)))
          (key_name rd (opt_val (collection_name r)) (uuid r)) =
        Some (Record_json (r\<lparr>epoch := PInt (clock w)\<rparr>)))"
  by (simp add: save_run and_then_def Record_index_def ES_index_def ok_def epoch_now_def
      update_conv')

theorem save_writes_blob_before_index_witness:
  "failing (w_ex\<lparr>faults := True ## sconst False\<rparr>)
   \<and> fst (Record_save rd_ex r_ex (w_ex\<lparr>faults := True ## sconst False\<rparr>)) = Inl S3ResponseError
   \<and> es (snd (Record_save rd_ex r_ex (w_ex\<lparr>faults := True ## sconst False\<rparr>))) = Map.empty
   \<and> trace (snd (Record_save rd_ex r_ex (w_ex\<lparr>faults := True ## sconst False\<rparr>))) =
       [S3_set_contents ''widgets/abc123'' ''application/json''
          (Record_json (r_ex\<lparr>epoch := PInt 1000\<rparr>))]
   \<and> \<not> failing w_ex
   \<and> trace (snd (Record_save rd_ex r_ex w_ex)) =
       [S3_set_contents ''widgets/abc123'' ''application/json''
          (Record_json (r_ex\<lparr>epoch := PInt 1000\<rparr>)),
        ES_index_call (Some ''widgets'') ''record''
          (Record_dict (r_ex\<lparr>epoch := PInt 1000\<rparr>)) (PStr ''abc123'')]
   \<and> map_of (bucket (snd (Record_save rd_ex r_ex w_ex))) ''widgets/abc123'' =
       Some (Record_json (r_ex\<lparr>epoch := PInt 1000\<rparr>))"
  using save_writes_blob_before_index [of rd_ex r_ex "w_ex\<lparr>faults := True ## sconst False\<rparr>"]
    save_writes_blob_before_index [of rd_ex r_ex w_ex]
  by (simp add: failing_def w_ex_def r_ex_def key_name_def)

section \<open>From a record to its map and back\<close>

text \<open>
  Claim C3. For a payload \<open>d\<close> with neither of the reserved keys \<^verbatim>\<open>uuid\<close> and
  \<^verbatim>\<open>epoch\<close>, the map of a record whose data is \<open>d\<close>, read back by the lines of
  \<^verbatim>\<open>_from_uuid\<close> that pop the reserved fields, gives a record whose data is \<open>d\<close>
  (and whose identifier and timestamp are those of the record).
\<close>

theorem record_round_trip:
  "''uuid'' \<notin> dom d \<Longrightarrow> ''epoch'' \<notin> dom d \<Longrightarrow>
     Record_load c (PDict (Record_dict (r\<lparr>data := d\<rparr>))) r0 =
       Inr \<lparr>uuid = uuid r, data = d, epoch = epoch r, collection_name = Some c\<rparr>"
proof -
  assume "''uuid'' \<notin> dom d" and "''epoch'' \<notin> dom d"
  then have "(Record_dict (r\<lparr>data := d\<rparr>))(''uuid'' := None, ''epoch'' := None) = d"
    by (auto simp: Record_dict_def fun_eq_iff)
  then show ?thesis
    by (simp add: Record_load_PDict pop_fst Record_dict_def del: Record_load.simps(1))
qed

theorem record_round_trip_witness:
  "''uuid'' \<notin> dom (data r_ex) \<and> ''epoch'' \<notin> dom (data r_ex) \<and>
   Record_load ''widgets'' (PDict (Record_dict r_ex))
     \<lparr>uuid = PStr ''fresh'', data = Map.empty, epoch = PInt 1000, collection_name = None\<rparr> =
   Inr r_ex"
proof -
  have a: "''uuid'' \<notin> dom (data r_ex)" and b: "''epoch'' \<notin> dom (data r_ex)"
    by (simp_all add: r_ex_def)
  from record_round_trip [OF a b, of "''widgets''" r_ex
      "\<lparr>uuid = PStr ''fresh'', data = Map.empty, epoch = PInt 1000, collection_name = None\<rparr>"] a b show ?thesis
    by (simp add: r_ex_def)
qed

section \<open>Saving a record and fetching it\<close>




section \<open>Fetching a key that the bucket does not have\<close>

text \<open>
  Claim C5, as amended. When the bucket has no key for an identifier,
  \<^verbatim>\<open>_from_uuid\<close> fails: \<^verbatim>\<open>BUCKET.get_key\<close> answers \<^verbatim>\<open>None\<close> and \<^verbatim>\<open>key.read()\<close>
  raises the \<^verbatim>\<open>AttributeError\<close> of \<^verbatim>\<open>None\<close> (or the call to the bucket itself
  fails, with the error of the bucket). After a \<^verbatim>\<open>delete()\<close> that returned, the
  key of the record is gone from the bucket, so fetching the identifier of the
  record from its collection fails in that way.

  As claimed, with an error for what is not found, it fails: the program has no
  such error. The \<^verbatim>\<open>AttributeError\<close> of a key that the bucket does not have is
  also the error of a key that it has and whose \<^verbatim>\<open>record\<close> is a number.
\<close>

theorem fetch_of_missing_key_fails:
  "(map_of (bucket w) (fst (locate u coll)) = None \<longrightarrow>
      fst (Record_from_uuid u coll w) =
        Inl (if failing w then S3ResponseError else AttributeError))
   \<and> (Record_delete rd r w = (Inr (), w') \<and> collection_name r = Some c \<and> c \<noteq> [] \<longrightarrow>
        map_of (bucket w') (c @ ''/'' @ py_str rd (uuid r)) = None \<and>
        fst (Collection_getitem \<lparr>name = Some c\<rparr> (py_str rd (uuid r)) w') =
          Inl (if failing w' then S3ResponseError else AttributeError))"
proof (intro conjI impI)
  assume "map_of (bucket w) (fst (locate u coll)) = None"
  then show "fst (Record_from_uuid u coll w) =
      Inl (if failing w then S3ResponseError else AttributeError)"
    using from_uuid_missing [of u coll "fst (locate u coll)" "snd (locate u coll)" w]
    by simp
next
  assume a: "Record_delete rd r w = (Inr (), w') \<and> collection_name r = Some c \<and> c \<noteq> []"
  then have gone: "map_of (bucket w') (c @ ''/'' @ py_str rd (uuid r)) = None"
    using delete_Inr(1) [of rd r w w'] by (simp add: key_name_def delete_conv')
  then show "map_of (bucket w') (c @ ''/'' @ py_str rd (uuid r)) = None" .
  have "locate (py_str rd (uuid r)) (Some c) = (c @ ''/'' @ py_str rd (uuid r), c)"
    using a by (simp add: locate_def)
  from from_uuid_missing [OF this gone]
  show "fst (Collection_getitem \<lparr>name = Some c\<rparr> (py_str rd (uuid r)) w') =
      Inl (if failing w' then S3ResponseError else AttributeError)"
    by (simp add: Collection_getitem_def)
qed

theorem fetch_of_missing_key_fails_counterexample:
  "map_of (bucket w_ex) ''widgets/abc123'' = None
   \<and> fst (Record_from_uuid ''abc123'' (Some ''widgets'') w_ex) = Inl AttributeError
   \<and> map_of (bucket w_odd) ''widgets/abc123'' =
       Some (JsonText (PDict (Map.empty(''record'' \<mapsto> PInt 5))))
   \<and> fst (Record_from_uuid ''abc123'' (Some ''widgets'') w_odd) = Inl AttributeError"
proof -
  have loc: "locate ''abc123'' (Some ''widgets'') = (''widgets/abc123'', ''widgets'')"
    by (simp add: locate_def)
  have a: "map_of (bucket w_ex) ''widgets/abc123'' = None"
    by (simp add: w_ex_def)
  have b: "map_of (bucket w_odd) ''widgets/abc123'' =
      Some (JsonText (PDict (Map.empty(''record'' \<mapsto> PInt 5))))"
    by (simp add: w_odd_def)
  have up: "\<not> shd (faults w_odd)" "\<not> shd (stl (faults w_odd))" "\<not> failing w_ex"
    by (simp_all add: w_odd_def w_ex_def failing_def)
  from from_uuid_missing [OF loc a] from_uuid_decode [OF loc b up(1,2)] a b up(3)
  show ?thesis
    by simp
qed

theorem fetch_of_missing_key_fails_witness:
  "map_of (bucket w_ex) (fst (locate ''abc123'' (Some ''widgets''))) = None
   \<and> fst (Record_from_uuid ''abc123'' (Some ''widgets'') w_ex) = Inl AttributeError
   \<and> (\<exists>w1 w'. fst (Record_save rd_ex r_ex w_ex) = Inr (r_ex\<lparr>epoch := PInt 1000\<rparr>)
        \<and> w1 = snd (Record_save rd_ex r_ex w_ex)
        \<and> Record_delete rd_ex r_ex w1 = (Inr (), w')
        \<and> fst (Collection_getitem \<lparr>name = Some ''widgets''\<rparr> ''abc123'' w') = Inl AttributeError)"
proof -
  obtain w1 where sv: "Record_save rd_ex r_ex w_ex = (Inr (r_ex\<lparr>epoch := PInt (clock w_ex)\<rparr>), w1)"
    using save_no_faults [of w_ex rd_ex r_ex] by (auto simp: w_ex_def)
  have f1: "faults w1 = sconst False"
    using save_Inr(3) [OF sv] by (simp add: w_ex_def)
  obtain ix where "es w1 (collection_name r_ex) = Some ix"
    and "ix (''record'', uuid r_ex) = Some (Record_dict (r_ex\<lparr>epoch := PInt (clock w_ex)\<rparr>))"
    using save_indexed [OF sv] by blast
  then obtain w' where del: "Record_delete rd_ex r_ex w1 = (Inr (), w')"
    using delete_no_faults [of w1 r_ex ix _ rd_ex] f1 by auto
  have f2: "\<not> failing w'"
    using delete_Inr(2) [OF del] f1 by (simp add: failing_def)
  have e: "map_of (bucket w_ex) (fst (locate ''abc123'' (Some ''widgets''))) = None"
    by (simp add: w_ex_def)
  from fetch_of_missing_key_fails [where w = w_ex and u = "''abc123''" and coll = "Some ''widgets''"]
    fetch_of_missing_key_fails [where w = w1 and rd = rd_ex and r = r_ex and w' = w'
      and c = "''widgets''"]
    e del f2 sv
  show ?thesis
    by (simp add: r_ex_def w_ex_def failing_def)
qed

section \<open>The envelope of a stored document\<close>

text \<open>
  Claim C9. The JSON that a record writes is a dictionary with the one key
  \<^verbatim>\<open>record\<close>, whose value is the map of the record. \<^verbatim>\<open>_from_uuid\<close>, when the
  bucket answers its two reads and the content of the key is the JSON of a
  dictionary \<open>m\<close>, reads \<open>m\<close> at \<^verbatim>\<open>record\<close> and nothing else of it: it raises
  \<^verbatim>\<open>KeyError\<close> when \<open>m\<close> has no such key, and builds the record from the value
  otherwise (\<open>r0\<close> is the fresh record of the constructor, all of whose fields
  are assigned). So what \<^verbatim>\<open>_persist\<close> has written, \<^verbatim>\<open>_from_uuid\<close> reads back as
  the record, less the reserved keys in its data.
\<close>

theorem record_envelope:
  "Record_json r = json_dumps (PDict (Map.empty(''record'' \<mapsto> PDict (Record_dict r))))
   \<and> (map_of (bucket w) (fst (locate u coll)) = Some (json_dumps (PDict m))
        \<and> \<not> shd (faults w) \<and> \<not> shd (stl (faults w)) \<longrightarrow>
      fst (Record_from_uuid u coll w) =
        (case m ''record'' of
           None \<Rightarrow> Inl KeyError
         | Some j \<Rightarrow> Record_load (snd (locate u coll)) j r0))
   \<and> (\<not> shd (faults w) \<and> \<not> shd (stl (faults w)) \<and> \<not> shd (stl (stl (faults w)))
        \<and> collection_name r = Some c \<and> c \<noteq> [] \<longrightarrow>
      fst (Record_from_uuid (py_str rd (uuid r)) (Some c) (snd (Record_persist rd r w))) =
        Inr \<lparr>uuid = uuid r, data = (data r)(''uuid'' := None, ''epoch'' := None),
             epoch = epoch r, collection_name = Some c\<rparr>)"
proof (intro conjI impI)
  show "Record_json r = json_dumps (PDict (Map.empty(''record'' \<mapsto> PDict (Record_dict r))))"
    by (simp add: Record_json_def)
next
  assume a: "map_of (bucket w) (fst (locate u coll)) = Some (json_dumps (PDict m))
        \<and> \<not> shd (faults w) \<and> \<not> shd (stl (faults w))"
  have "locate u coll = (fst (locate u coll), snd (locate u coll))" by simp
  from from_uuid_decode [OF this, of w _ r0] a
  show "fst (Record_from_uuid u coll w) =
        (case m ''record'' of
           None \<Rightarrow> Inl KeyError
         | Some j \<Rightarrow> Record_load (snd (locate u coll)) j r0)"
    by (simp add: json_dumps_def split: option.splits)
next
  assume "\<not> shd (faults w) \<and> \<not> shd (stl (faults w)) \<and> \<not> shd (stl (stl (faults w)))
        \<and> collection_name r = Some c \<and> c \<noteq> []"
  then show "fst (Record_from_uuid (py_str rd (uuid r)) (Some c) (snd (Record_persist rd r w))) =
        Inr \<lparr>uuid = uuid r, data = (data r)(''uuid'' := None, ''epoch'' := None),
             epoch = epoch r, collection_name = Some c\<rparr>"
    using persist_then_fetch [of w r c rd] by simp
qed

theorem record_envelope_witness:
  "fst (Record_from_uuid ''abc123'' (Some ''widgets'') w_bare) = Inl KeyError
   \<and> fst (Record_from_uuid ''abc123'' (Some ''widgets'') (snd (Record_persist rd_ex r_ex w_ex))) =
       Inr r_ex"
proof -
  have a: "map_of (bucket w_bare) (fst (locate ''abc123'' (Some ''widgets''))) =
      Some (json_dumps (PDict (Record_dict r_ex)))"
    by (simp add: w_bare_def locate_def)
  have b: "\<not> shd (faults w_bare)" "\<not> shd (stl (faults w_bare))"
    by (simp_all add: w_bare_def w_ex_def)
  have c: "\<not> shd (faults w_ex)" "\<not> shd (stl (faults w_ex))" "\<not> shd (stl (stl (faults w_ex)))"
    by (simp_all add: w_ex_def)
  have d: "(data r_ex)(''uuid'' := None, ''epoch'' := None) = data r_ex"
    by (auto simp: r_ex_def fun_eq_iff)
  from record_envelope [where w = w_bare and u = "''abc123''" and coll = "Some ''widgets''"
      and m = "Record_dict r_ex"]
    record_envelope [where w = w_ex and r = r_ex and c = "''widgets''" and rd = rd_ex]
    a b c d
  show ?thesis
    by (simp add: r_ex_def Record_dict_def)
qed

section \<open>Stored documents without the reserved fields\<close>

text \<open>
  Claim C10. When the content of a key is the JSON of a dictionary whose
  \<^verbatim>\<open>record\<close> is a dictionary \<open>j\<close>, and the bucket answers the two reads,
  \<^verbatim>\<open>_from_uuid\<close> returns a record: its identifier is \<open>j\<close> at \<^verbatim>\<open>uuid\<close> and
  \<^verbatim>\<open>None\<close> when \<open>j\<close> has no such key, its timestamp likewise for \<^verbatim>\<open>epoch\<close>, and
  its data are the other fields of \<open>j\<close>.
\<close>

theorem fetch_without_reserved_fields:
  assumes "map_of (bucket w) (fst (locate u coll)) = Some (JsonText (PDict m))"
    and "m ''record'' = Some (PDict j)"
    and "\<not> shd (faults w)" and "\<not> shd (stl (faults w))"
  shows "\<exists>r. fst (Record_from_uuid u coll w) = Inr r
           \<and> uuid r = (case j ''uuid'' of None \<Rightarrow> PNone | Some v \<Rightarrow> v)
           \<and> epoch r = (case j ''epoch'' of None \<Rightarrow> PNone | Some v \<Rightarrow> v)
           \<and> data r = j(''uuid'' := None, ''epoch'' := None)
           \<and> collection_name r = Some (snd (locate u coll))"
proof -
  have "locate u coll = (fst (locate u coll), snd (locate u coll))" by simp
  from from_uuid_found [OF this assms] show ?thesis
    by (simp add: pop_fst)
qed

theorem fetch_without_reserved_fields_witness:
  "fst (Record_from_uuid ''widgets/abc123'' None w_sparse) =
     Inr \<lparr>uuid = PNone, data = Map.empty(''color'' \<mapsto> PStr ''red''), epoch = PNone,
          collection_name = Some ''widgets''\<rparr>"
proof -
  have a: "map_of (bucket w_sparse) (fst (locate ''widgets/abc123'' None)) =
      Some (JsonText (PDict (Map.empty(''record'' \<mapsto> PDict (Map.empty(''color'' \<mapsto> PStr ''red''))))))"
    by (simp add: w_sparse_def locate_def)
  have b: "\<not> shd (faults w_sparse)" "\<not> shd (stl (faults w_sparse))"
    by (simp_all add: w_sparse_def w_ex_def)
  have d: "(Map.empty(''color'' \<mapsto> PStr ''red''))(''uuid'' := None, ''epoch'' := None) =
      Map.empty(''color'' \<mapsto> PStr ''red'')"
    by (auto simp: fun_eq_iff)
  from fetch_without_reserved_fields [OF a _ b, of "Map.empty(''color'' \<mapsto> PStr ''red'')"] d
  show ?thesis
    by (auto simp: locate_def first_segment_def)
qed

section \<open>The query of a search\<close>

text \<open>
  Claim C6, as amended. The first call of a search is the request to the
  engine, and the search makes no other request. For the query \<^verbatim>\<open>None\<close> the
  request carries \<^verbatim>\<open>*\<close>, as the parameter \<^verbatim>\<open>es_q\<close> and in its body. A query
  that is a string is sent as it is, the empty string too.

  As claimed of the empty query it fails: line 61 tests \<^verbatim>\<open>query is None\<close>, and
  the empty string is not \<^verbatim>\<open>None\<close>, so the request carries the empty string.
\<close>

theorem search_query_substitution:
  "(\<exists>evs. trace (snd (Collection_search eng c PNone sort' size' kwargs w)) =
            trace w @
              ES_search_call
                \<lparr>req_body = search_body (PStr ''*''), req_index = name c,
                 req_params = (es_params (search_kwargs sort' size' kwargs))(''es_q'' \<mapsto> PStr ''*'')\<rparr> # evs
          \<and> searches evs = [])
   \<and> (\<exists>evs. trace (snd (Collection_search eng c (PStr s) sort' size' kwargs w)) =
            trace w @
              ES_search_call
                \<lparr>req_body = search_body (PStr s), req_index = name c,
                 req_params = (es_params (search_kwargs sort' size' kwargs))(''es_q'' \<mapsto> PStr s)\<rparr> # evs
          \<and> searches evs = [])"
proof -
  have "\<exists>evs. trace (snd (Collection_search eng c q sort' size' kwargs w)) =
            trace w @ ES_search_call (search_request_for c q (search_kwargs sort' size' kwargs)) # evs
          \<and> searches evs = []" for q
    using iter_search_trace [of eng c q "search_kwargs sort' size' kwargs" w]
    by (auto simp: Collection_search_def dest: searches_reads)
  from this [of PNone] this [of "PStr s"] show ?thesis
    by (simp add: search_request_for_def search_query_def)
qed

theorem search_query_substitution_witness:
  "sent_queries (trace (snd (Collection_search eng_none \<lparr>name = Some ''widgets''\<rparr> PNone PNone PNone
     Map.empty w_ex))) = [Some (PStr ''*'')]"
proof -
  from search_query_substitution [of eng_none "\<lparr>name = Some ''widgets''\<rparr>" PNone PNone Map.empty w_ex]
  obtain evs where
    "trace (snd (Collection_search eng_none \<lparr>name = Some ''widgets''\<rparr> PNone PNone PNone Map.empty w_ex)) =
       trace w_ex @
         ES_search_call
           \<lparr>req_body = search_body (PStr ''*''), req_index = name \<lparr>name = Some ''widgets''\<rparr>,
            req_params = (es_params (search_kwargs PNone PNone Map.empty))(''es_q'' \<mapsto> PStr ''*'')\<rparr> # evs"
    and "searches evs = []"
    by blast
  then show ?thesis
    by (simp add: w_ex_def sent_queries_def)
qed

theorem search_query_substitution_counterexample:
  "sent_queries (trace (snd (Collection_search eng_none \<lparr>name = Some ''widgets''\<rparr> (PStr '''') PNone PNone
     Map.empty w_ex))) = [Some (PStr '''')]
   \<and> PStr '''' \<noteq> PStr ''*''"
  by (simp add: sent_queries_def Collection_search_def iter_search_run failing_def w_ex_def eng_none_def ok_def
      search_request_for_def search_query_def)

section \<open>The order of the results of a search\<close>




section \<open>Seeding the index from the bucket\<close>

text \<open>
  Claim C8. Whatever becomes of \<^verbatim>\<open>seed()\<close>, the bucket is afterwards as it was
  and none of the calls made has written to it or deleted from it. When
  \<^verbatim>\<open>seed()\<close> returns, its calls are: the listing of the bucket, creations of
  indexes, the listing again, and then for every key of the bucket, in the
  order of the listing, the reading of the key and the writing of its record
  to the index.
\<close>

theorem seed_reindexes_and_leaves_bucket:
  "bucket (snd (seed w)) = bucket w
   \<and> (\<exists>evs. trace (snd (seed w)) = trace w @ evs \<and> list_all (\<lambda>c. \<not> bucket_write c) evs)
   \<and> (fst (seed w) = Inr () \<longrightarrow>
        (\<exists>creates chunks.
           trace (snd (seed w)) = trace w @ S3_list # creates @ S3_list # concat chunks \<and>
           list_all index_creation creates \<and>
           list_all2 (reindexed (bucket w)) (map fst (bucket w)) chunks))"
proof (intro conjI impI)
  show "bucket (snd (seed w)) = bucket w"
    by (rule leaves_bucket_bucket [OF leaves_bucket_seed])
next
  show "\<exists>evs. trace (snd (seed w)) = trace w @ evs \<and> list_all (\<lambda>c. \<not> bucket_write c) evs"
    by (rule leaves_bucket_trace [OF leaves_bucket_seed])
next
  assume "fst (seed w) = Inr ()"
  then have "seed w = (Inr (), snd (seed w))"
    by (simp add: prod_eq_iff)
  then show "\<exists>creates chunks.
           trace (snd (seed w)) = trace w @ S3_list # creates @ S3_list # concat chunks \<and>
           list_all index_creation creates \<and>
           list_all2 (reindexed (bucket w)) (map fst (bucket w)) chunks"
    by (rule seed_Inr)
qed

theorem seed_reindexes_and_leaves_bucket_witness:
  "fst (seed w_three) = Inr ()
   \<and> bucket (snd (seed w_three)) = bucket w_three
   \<and> (\<exists>creates chunks.
         trace (snd (seed w_three)) = S3_list # creates @ S3_list # concat chunks \<and>
         list_all index_creation creates \<and>
         list_all2 (reindexed (bucket w_three))
           [''widgets/a'', ''widgets/b'', ''widgets/c''] chunks)"
  using seed_reindexes_and_leaves_bucket [of w_three] seed_three
  by (simp add: w_three_def w_ex_def)

end
